theory Spec2Isabelle
  imports Complex_Main
begin

section \<open>JavaScript values\<close>

text \<open>
  The live configuration is a JavaScript object that passes through \<open>JSON.parse\<close>,
  \<open>JSON.stringify\<close> and the untyped \<open>deepMerge(target: any, source: any)\<close>, so it is
  modelled as a value of the untyped language. An object is an association list in
  insertion order with distinct keys; a number is a real (\<open>NaN\<close> and the infinities are
  not represented); a \<open>RegExp\<close> object carries its \<open>source\<close> and \<open>flags\<close>. Properties
  inherited from prototypes (\<open>toString\<close>, \<open>length\<close>, ...) are not represented.
\<close>

datatype jsval =
    JUndefined
  | JNull
  | JBool bool
  | JNum real
  | JStr string
  | JArr "jsval list"
  | JObj "(string \<times> jsval) list"
  | JRegExp string string

text \<open>Truthiness, as \<open>if (v)\<close> and \<open>a && b\<close> test it.\<close>

fun truthy :: "jsval \<Rightarrow> bool" where
  "truthy JUndefined = False"
| "truthy JNull = False"
| "truthy (JBool b) = b"
| "truthy (JNum n) = (n \<noteq> 0)"
| "truthy (JStr s) = (s \<noteq> [])"
| "truthy (JArr xs) = True"
| "truthy (JObj kvs) = True"
| "truthy (JRegExp s f) = True"

text \<open>
  \<open>isObject(item)\<close> of \<open>deepMerge\<close>:
  \<open>item && typeof item === 'object' && !Array.isArray(item)\<close>. \<open>typeof\<close> of a
  \<open>RegExp\<close> is \<open>'object'\<close>, and a \<open>RegExp\<close> is not an array.
\<close>

fun isObject :: "jsval \<Rightarrow> bool" where
  "isObject (JObj kvs) = True"
| "isObject (JRegExp s f) = True"
| "isObject v = False"

text \<open>\<open>v instanceof RegExp\<close> and \<open>typeof v === 'string'\<close>.\<close>

fun instanceofRegExp :: "jsval \<Rightarrow> bool" where
  "instanceofRegExp (JRegExp s f) = True"
| "instanceofRegExp v = False"

fun lookupKey :: "(string \<times> jsval) list \<Rightarrow> string \<Rightarrow> jsval" where
  "lookupKey [] k = JUndefined"
| "lookupKey ((k', v) # kvs) k = (if k' = k then v else lookupKey kvs k)"

text \<open>
  Property read \<open>v[k]\<close> on a value that is neither \<open>null\<close> nor \<open>undefined\<close> (on those
  the read throws \<open>TypeError\<close>; every caller below tests for them first).
\<close>

fun getProp :: "jsval \<Rightarrow> string \<Rightarrow> jsval" where
  "getProp (JObj kvs) k = lookupKey kvs k"
| "getProp v k = JUndefined"

text \<open>\<open>key in target\<close>, for a target that \<open>isObject\<close> accepts.\<close>

fun hasKey :: "jsval \<Rightarrow> string \<Rightarrow> bool" where
  "hasKey (JObj kvs) k = (k \<in> fst ` set kvs)"
| "hasKey v k = False"

text \<open>
  \<open>output[key] = v\<close> and \<open>Object.assign(output, { [key]: v })\<close>: an existing key keeps
  its place, a new key goes last.
\<close>

fun assign :: "(string \<times> jsval) list \<Rightarrow> string \<Rightarrow> jsval \<Rightarrow> (string \<times> jsval) list" where
  "assign [] k v = [(k, v)]"
| "assign ((k', v') # kvs) k v = (if k' = k then (k, v) # kvs else (k', v') # assign kvs k v)"

text \<open>
  Decimal numerals of array and string indices, the keys a spread gives them.
  \<open>digitChar\<close> is only applied to a digit below the base.
\<close>

definition digitChar :: "nat \<Rightarrow> char" where
  "digitChar n = ''0123456789abcdef'' ! n"

function showNat :: "nat \<Rightarrow> string" where
  "showNat n = (if n < 10 then [digitChar n] else showNat (n div 10) @ [digitChar (n mod 10)])"
  by pat_completeness auto
termination
  by (relation "measure id") auto

fun indexed :: "nat \<Rightarrow> jsval list \<Rightarrow> (string \<times> jsval) list" where
  "indexed i [] = []"
| "indexed i (v # vs) = (showNat i, v) # indexed (Suc i) vs"

text \<open>
  The own enumerable properties that the spread \<open>{ ...target }\<close> copies: an object's
  entries, an array's elements and a string's characters under their indices, nothing
  for a \<open>RegExp\<close>, a number, a boolean, \<open>null\<close> or \<open>undefined\<close>.
\<close>

fun spread :: "jsval \<Rightarrow> (string \<times> jsval) list" where
  "spread (JObj kvs) = kvs"
| "spread (JArr xs) = indexed 0 xs"
| "spread (JStr s) = indexed 0 (map (\<lambda>c. JStr [c]) s)"
| "spread v = []"

section \<open>Deep merge and update\<close>

text \<open>
  \<open>deepMerge\<close> copies the target's properties into \<open>output\<close> and, when both arguments
  are objects, runs over the keys of \<open>source\<close>: a value that \<open>isObject\<close> accepts is
  merged into \<open>target[key]\<close> when the target has the key and assigned otherwise, any other
  value is assigned. \<open>mergeKeys\<close> is the \<open>forEach\<close> loop, threading \<open>output\<close>.
\<close>

fun deepMerge :: "jsval \<Rightarrow> jsval \<Rightarrow> jsval"
  and mergeKeys :: "jsval \<Rightarrow> (string \<times> jsval) list \<Rightarrow> (string \<times> jsval) list \<Rightarrow> (string \<times> jsval) list"
where
  "deepMerge target (JObj kvs) =
     (if isObject target then JObj (mergeKeys target kvs (spread target))
      else JObj (spread target))"
| "deepMerge target JUndefined = JObj (spread target)"
| "deepMerge target JNull = JObj (spread target)"
| "deepMerge target (JBool b) = JObj (spread target)"
| "deepMerge target (JNum n) = JObj (spread target)"
| "deepMerge target (JStr s) = JObj (spread target)"
| "deepMerge target (JArr xs) = JObj (spread target)"
| "deepMerge target (JRegExp s f) = JObj (spread target)"
| "mergeKeys target [] output = output"
| "mergeKeys target ((key, sv) # rest) output =
     mergeKeys target rest
       (if isObject sv then
          (if \<not> hasKey target key then assign output key sv
           else assign output key (deepMerge (getProp target key) sv))
        else assign output key sv)"

text \<open>
  \<open>updateConfig\<close> replaces the live configuration by the merge. (It then calls
  \<open>saveConfigToDocument\<close>, which writes the encoded configuration to the document and
  leaves \<open>this.config\<close> as it is.)
\<close>

definition updateConfig :: "jsval \<Rightarrow> jsval \<Rightarrow> jsval" where
  "updateConfig config newConfig = deepMerge config newConfig"

section \<open>JSON text\<close>

text \<open>
  A string handed to \<open>JSON.parse\<close> is represented by what the parser makes of it: the
  empty string (which \<open>if (pluginDataStr)\<close> also treats as absent), a text that is not
  JSON (\<open>JSON.parse\<close> throws \<open>SyntaxError\<close>), or the text of a JSON value.
  \<open>jsonValue v\<close> is the value that the text \<open>JSON.stringify(v)\<close> denotes, that is
  \<open>JSON.parse(JSON.stringify(v))\<close>: a \<open>RegExp\<close> is written as \<open>{}\<close>, an \<open>undefined\<close>
  property is left out and an \<open>undefined\<close> array element is written as \<open>null\<close>. At the
  top level \<open>undefined\<close> has no text (\<open>JSON.stringify\<close> returns \<open>undefined\<close>); the callers
  below treat that case themselves. Layout (the indentation of
  \<open>JSON.stringify(v, null, 2)\<close>) is not represented.
\<close>

datatype jsonText = EmptyText | NotJson | JsonOf jsval

fun jsonValue :: "jsval \<Rightarrow> jsval"
  and jsonEntries :: "(string \<times> jsval) list \<Rightarrow> (string \<times> jsval) list"
  and jsonElems :: "jsval list \<Rightarrow> jsval list"
where
  "jsonValue (JObj kvs) = JObj (jsonEntries kvs)"
| "jsonValue (JArr xs) = JArr (jsonElems xs)"
| "jsonValue (JRegExp s f) = JObj []"
| "jsonValue JUndefined = JUndefined"
| "jsonValue JNull = JNull"
| "jsonValue (JBool b) = JBool b"
| "jsonValue (JNum n) = JNum n"
| "jsonValue (JStr s) = JStr s"
| "jsonEntries [] = []"
| "jsonEntries ((k, v) # kvs) =
     (if v = JUndefined then jsonEntries kvs else (k, jsonValue v) # jsonEntries kvs)"
| "jsonElems [] = []"
| "jsonElems (v # vs) = (if v = JUndefined then JNull else jsonValue v) # jsonElems vs"

definition JSON_stringify :: "jsval \<Rightarrow> jsonText" where
  "JSON_stringify v = JsonOf (jsonValue v)"

section \<open>Strings\<close>

text \<open>
  A string is a list of characters. \<open>toLowerCase\<close> and \<open>toUpperCase\<close> are modelled on the
  ASCII letters, \<open>trim\<close> on the ASCII white space.
\<close>

definition toLowerChar :: "char \<Rightarrow> char" where
  "toLowerChar c =
     (case map_of (zip ''ABCDEFGHIJKLMNOPQRSTUVWXYZ'' ''abcdefghijklmnopqrstuvwxyz'') c of
        Some l \<Rightarrow> l
      | None \<Rightarrow> c)"

definition toUpperChar :: "char \<Rightarrow> char" where
  "toUpperChar c =
     (case map_of (zip ''abcdefghijklmnopqrstuvwxyz'' ''ABCDEFGHIJKLMNOPQRSTUVWXYZ'') c of
        Some u \<Rightarrow> u
      | None \<Rightarrow> c)"

definition toLowerCase :: "string \<Rightarrow> string" where
  "toLowerCase s = map toLowerChar s"

definition toUpperCase :: "string \<Rightarrow> string" where
  "toUpperCase s = map toUpperChar s"

fun startsWith :: "string \<Rightarrow> string \<Rightarrow> bool" where
  "startsWith s [] = True"
| "startsWith [] (c # cs) = False"
| "startsWith (d # ds) (c # cs) = (d = c \<and> startsWith ds cs)"

text \<open>\<open>s.includes(sub)\<close>: \<open>sub\<close> occurs in \<open>s\<close> as a contiguous run.\<close>

fun strIncludes :: "string \<Rightarrow> string \<Rightarrow> bool" where
  "strIncludes [] sub = (sub = [])"
| "strIncludes (c # cs) sub = (startsWith (c # cs) sub \<or> strIncludes cs sub)"

definition isWhiteSpace :: "char \<Rightarrow> bool" where
  "isWhiteSpace c = (c \<in> set [CHR 0x20, CHR 0x09, CHR 0x0A, CHR 0x0B, CHR 0x0C, CHR 0x0D])"

definition trim :: "string \<Rightarrow> string" where
  "trim s = rev (dropWhile isWhiteSpace (rev (dropWhile isWhiteSpace s)))"

section \<open>Configuration, nodes and results\<close>

text \<open>
  The interfaces \<open>StandardsConfig\<close>, \<open>CheckIssue\<close> and \<open>CheckResults\<close>. The checks read
  the configuration through \<open>StandardsConfig\<close>, so evaluation is modelled on a
  configuration of that type. A pattern is a \<open>RegExp\<close> with its source and flags; its
  \<open>test\<close> method belongs to the host's regular-expression engine and is a parameter of
  the checks that call it (taken as a function of the pattern and the text, which it is
  for patterns without the \<open>g\<close> and \<open>y\<close> flags).
\<close>

record RegExp =
  source :: string
  flags :: string

record ColorsConfig =
  allowedColors :: "string list"
  tolerance :: real

record TypographyConfig =
  allowedFonts :: "string list"
  textStyles :: "string list"

record SpacingConfig =
  baseUnit :: real
  tolerancePercent :: real

record ComponentsConfig =
  requiredComponents :: "(string \<times> string list) list"
  mustBeInstances :: "string list"

text \<open>The field \<open>components'\<close> is \<open>naming.patterns.components\<close>.\<close>

record Patterns =
  frames :: RegExp
  components' :: RegExp
  layers :: RegExp

record NamingConfig =
  patterns :: Patterns

record AccessibilityConfig =
  minContrastRatio :: real
  interactiveElementMinSize :: real

record StandardsConfig =
  colors :: ColorsConfig
  typography :: TypographyConfig
  spacing :: SpacingConfig
  components :: ComponentsConfig
  naming :: NamingConfig
  accessibility :: AccessibilityConfig

definition defaultConfig :: StandardsConfig where
  "defaultConfig =
     \<lparr> colors = \<lparr> allowedColors =
                    [''#1A73E8'', ''#4285F4'', ''#34A853'', ''#FBBC04'', ''#EA4335'',
                     ''#F8F9FA'', ''#202124''],
                  tolerance = 0 \<rparr>,
       typography = \<lparr> allowedFonts = [''Roboto'', ''Product Sans'', ''Google Sans''],
                      textStyles = [''Heading'', ''Body'', ''Caption'', ''Button''] \<rparr>,
       spacing = \<lparr> baseUnit = 8, tolerancePercent = 5 \<rparr>,
       components = \<lparr> requiredComponents =
                        [(''screen'', [''Navigation'', ''StatusBar'']),
                         (''card'', [''Shadow'', ''Title''])],
                      mustBeInstances =
                        [''Button'', ''Input'', ''Checkbox'', ''Radio'', ''Toggle'', ''Dropdown''] \<rparr>,
       naming = \<lparr> patterns =
                    \<lparr> frames = \<lparr> source = ''^[A-Z][a-z]+ - [a-z0-9-_]+$'', flags = [] \<rparr>,
                      components' = \<lparr> source = ''^[A-Z][a-z]+ '' @ [CHR 0x5C] @ ''/ [A-Z][a-z]+$'', flags = [] \<rparr>,
                      layers = \<lparr> source = ''^[a-z][a-z0-9-_]+$'', flags = [] \<rparr> \<rparr> \<rparr>,
       accessibility = \<lparr> minContrastRatio = 4.5, interactiveElementMinSize = 44 \<rparr> \<rparr>"

text \<open>The JavaScript object of a typed configuration, with its keys in the order of the
  object literal.\<close>

definition regexObject :: "RegExp \<Rightarrow> jsval" where
  "regexObject re = JRegExp (source re) (flags re)"

definition stringArray :: "string list \<Rightarrow> jsval" where
  "stringArray xs = JArr (map JStr xs)"

definition configObject :: "StandardsConfig \<Rightarrow> jsval" where
  "configObject c =
     JObj
      [(''colors'', JObj [(''allowedColors'', stringArray (allowedColors (colors c))),
                          (''tolerance'', JNum (tolerance (colors c)))]),
       (''typography'', JObj [(''allowedFonts'', stringArray (allowedFonts (typography c))),
                              (''textStyles'', stringArray (textStyles (typography c)))]),
       (''spacing'', JObj [(''baseUnit'', JNum (baseUnit (spacing c))),
                           (''tolerancePercent'', JNum (tolerancePercent (spacing c)))]),
       (''components'',
          JObj [(''requiredComponents'',
                   JObj (map (\<lambda>(k, v). (k, stringArray v)) (requiredComponents (components c)))),
                (''mustBeInstances'', stringArray (mustBeInstances (components c)))]),
       (''naming'',
          JObj [(''patterns'',
                   JObj [(''frames'', regexObject (frames (patterns (naming c)))),
                         (''components'', regexObject (components' (patterns (naming c)))),
                         (''layers'', regexObject (layers (patterns (naming c))))])]),
       (''accessibility'',
          JObj [(''minContrastRatio'', JNum (minContrastRatio (accessibility c))),
                (''interactiveElementMinSize'',
                   JNum (interactiveElementMinSize (accessibility c)))])]"

text \<open>
  The part of a design-document node that the checks read. \<open>fills\<close> and \<open>strokes\<close> are
  \<open>None\<close> when the node has no such property or when it is not an array (the mixed
  marker); \<open>hasWidthHeight\<close> is \<open>'width' in node && 'height' in node\<close>; \<open>layoutMode\<close> is
  \<open>None\<close> when the node has no such property. A paint's \<open>visible\<close> is its truthiness.
\<close>

datatype nodeType = DOCUMENT | PAGE | FRAME | GROUP | COMPONENT | INSTANCE | TEXT | OtherNode string

datatype rgb = RGB real real real

datatype paint = SOLID bool rgb | OtherPaint string bool

datatype fontNameValue = MixedFont | FontName string string

datatype styleIdValue = MixedStyle | StyleId string

record nodeProps =
  node_id :: string
  node_name :: string
  node_type :: nodeType
  fills :: "paint list option"
  strokes :: "paint list option"
  fontName :: fontNameValue
  textStyleId :: styleIdValue
  node_x :: real
  node_y :: real
  width :: real
  height :: real
  hasWidthHeight :: bool
  layoutMode :: "string option"
  paddingTop :: real
  paddingRight :: real
  paddingBottom :: real
  paddingLeft :: real

text \<open>A node without a \<open>children\<close> property, or one with its children in order.\<close>

datatype node = Leaf nodeProps | Parent nodeProps "node list"

fun propsOf :: "node \<Rightarrow> nodeProps" where
  "propsOf (Leaf p) = p"
| "propsOf (Parent p cs) = p"

fun hasChildren :: "node \<Rightarrow> bool" where
  "hasChildren (Leaf p) = False"
| "hasChildren (Parent p cs) = True"

text \<open>
  An issue's message is a template literal over the node's name and the offending
  values; it is represented by its template and the values filled in.
\<close>

datatype message =
    NonStandardColor string string
  | NonStandardStrokeColor string string
  | NonStandardFont string string
  | NoTextStyle string
  | NonStandardTextStyle string string
  | TextStyleError string
  | XNotOnGrid string real
  | YNotOnGrid string real
  | WidthNotOnGrid string real
  | HeightNotOnGrid string real
  | NonStandardTopPadding string real
  | NonStandardRightPadding string real
  | NonStandardBottomPadding string real
  | NonStandardLeftPadding string real
  | MissingRequiredComponent string string
  | ShouldBeInstance string
  | FrameNaming string
  | ComponentNaming string
  | LayerNaming string
  | InsufficientContrast string
  | TooSmall string real real

record CheckIssue =
  category :: string
  message :: message
  nodeId :: string

record Stats =
  nodesChecked :: nat
  issuesFound :: nat
  categoryCounts :: "string \<rightharpoonup> nat"

record CheckResults =
  passed :: bool
  issues :: "CheckIssue list"
  stats :: Stats

section \<open>Export, save and load of the configuration\<close>

text \<open>\<open>regex.toString()\<close>: the source between slashes, then the flags.\<close>

fun regexToString :: "jsval \<Rightarrow> string" where
  "regexToString (JRegExp s f) = ''/'' @ s @ ''/'' @ f"
| "regexToString v = []"

text \<open>
  The assignment \<open>c.naming.patterns[key] = v\<close>, for a \<open>c\<close> whose \<open>naming.patterns\<close> is
  an object (both callers have tested that).
\<close>

definition setPattern :: "jsval \<Rightarrow> string \<Rightarrow> jsval \<Rightarrow> jsval" where
  "setPattern c key v =
     (case c of
        JObj tops \<Rightarrow>
          (case lookupKey tops ''naming'' of
             JObj nm \<Rightarrow>
               (case lookupKey nm ''patterns'' of
                  JObj ps \<Rightarrow>
                    JObj (assign tops ''naming''
                      (JObj (assign nm ''patterns'' (JObj (assign ps key v)))))
                | _ \<Rightarrow> c)
           | _ \<Rightarrow> c)
      | _ \<Rightarrow> c)"

definition getPattern :: "jsval \<Rightarrow> string \<Rightarrow> jsval" where
  "getPattern c key = getProp (getProp (getProp c ''naming'') ''patterns'') key"

text \<open>
  One of the three blocks
  \<open>if (this.config.naming.patterns.K instanceof RegExp)
      configToExport.naming.patterns.K = this.config.naming.patterns.K.toString()\<close>.
\<close>

definition encodePattern :: "jsval \<Rightarrow> string \<Rightarrow> jsval \<Rightarrow> jsval" where
  "encodePattern config key configToExport =
     (if instanceofRegExp (getPattern config key)
      then setPattern configToExport key (JStr (regexToString (getPattern config key)))
      else configToExport)"

definition encodePatterns :: "jsval \<Rightarrow> jsval" where
  "encodePatterns config =
     (let configToExport = jsonValue config in
      if truthy (getProp configToExport ''naming'')
         \<and> truthy (getProp (getProp configToExport ''naming'') ''patterns'')
      then encodePattern config ''layers''
             (encodePattern config ''components''
               (encodePattern config ''frames'' configToExport))
      else configToExport)"

text \<open>
  \<open>exportCurrentConfig\<close> returns the text of the clone with its patterns encoded. Its
  \<open>try\<close> block throws when the configuration is \<open>undefined\<close> (\<open>JSON.parse(undefined)\<close>) or
  \<open>null\<close> (the read of \<open>naming\<close> on the clone); the \<open>catch\<close> branch then returns the text of
  the default configuration as \<open>JSON.stringify\<close> writes it, its patterns as \<open>{}\<close>.
\<close>

definition exportCurrentConfig :: "jsval \<Rightarrow> jsonText" where
  "exportCurrentConfig config =
     (if config = JUndefined \<or> config = JNull
      then JSON_stringify (configObject defaultConfig)
      else JSON_stringify (encodePatterns config))"

text \<open>
  \<open>saveConfigToDocument\<close> writes the same text to the document's plugin data; the
  result is the text written, \<open>None\<close> when its \<open>try\<close> block throws and nothing is written.
\<close>

definition saveConfigToDocument :: "jsval \<Rightarrow> jsonText option" where
  "saveConfigToDocument config =
     (if config = JUndefined \<or> config = JNull then None
      else Some (JSON_stringify (encodePatterns config)))"

text \<open>
  \<open>patternStr.match(/^\/(.*)\/([gimuy]*)$/)\<close>: the text starts with a slash, the flags are
  what follows its last slash and are among \<open>g i m u y\<close>, and the pattern between the
  two slashes has no line terminator, which \<open>.\<close> does not match (line feed and carriage
  return; the two Unicode separators are not characters of this model).
\<close>

definition isFlagChar :: "char \<Rightarrow> bool" where
  "isFlagChar c = (c \<in> set ''gimuy'')"

definition isLineTerminator :: "char \<Rightarrow> bool" where
  "isLineTerminator c = (c = CHR 0x0A \<or> c = CHR 0x0D)"

definition matchRegexLiteral :: "string \<Rightarrow> (string \<times> string) option" where
  "matchRegexLiteral patternStr =
     (case patternStr of
        [] \<Rightarrow> None
      | c # body \<Rightarrow>
          if c = CHR ''/'' \<and> CHR ''/'' \<in> set body then
            (let fl = rev (takeWhile (\<lambda>d. d \<noteq> CHR ''/'') (rev body));
                 pat = take (length body - length fl - 1) body
             in if list_all isFlagChar fl \<and> \<not> list_ex isLineTerminator pat
                then Some (pat, fl) else None)
          else None)"

text \<open>
  One of the three "Handle ... pattern" blocks of \<open>loadConfigFromDocument\<close>. The
  constructor \<open>new RegExp(pattern, flags)\<close> belongs to the host: \<open>compiles pat fl\<close>
  says whether it returns, and the pattern it returns is taken to have the text \<open>pat\<close> as
  its source and \<open>fl\<close> as its flags; when it throws the result is \<open>None\<close>. A string that
  does not have the shape of a regex literal is left in place.
\<close>

definition decodePattern :: "(string \<Rightarrow> string \<Rightarrow> bool) \<Rightarrow> string \<Rightarrow> jsval \<Rightarrow> jsval option" where
  "decodePattern compiles key parsedConfig =
     (case getPattern parsedConfig key of
        JStr patternStr \<Rightarrow>
          (case matchRegexLiteral patternStr of
             Some (pat, fl) \<Rightarrow>
               if compiles pat fl
               then Some (setPattern parsedConfig key (JRegExp pat fl))
               else None
           | None \<Rightarrow> Some parsedConfig)
      | _ \<Rightarrow> Some parsedConfig)"

text \<open>
  \<open>loadConfigFromDocument\<close>: \<open>None\<close> is the \<open>null\<close> it returns when there is no stored
  text or when something inside the \<open>try\<close> throws (\<open>JSON.parse\<close> on a malformed text,
  the property read \<open>parsedConfig.naming\<close> on \<open>null\<close>, \<open>new RegExp\<close> on a pattern that
  does not compile).
\<close>

definition loadConfigFromDocument :: "(string \<Rightarrow> string \<Rightarrow> bool) \<Rightarrow> jsonText \<Rightarrow> jsval option" where
  "loadConfigFromDocument compiles pluginDataStr =
     (case pluginDataStr of
        EmptyText \<Rightarrow> None
      | NotJson \<Rightarrow> None
      | JsonOf parsedConfig \<Rightarrow>
          if parsedConfig = JNull then None
          else if truthy (getProp parsedConfig ''naming'')
                  \<and> truthy (getProp (getProp parsedConfig ''naming'') ''patterns'')
          then
            (case decodePattern compiles ''frames'' parsedConfig of
               None \<Rightarrow> None
             | Some c1 \<Rightarrow>
                 (case decodePattern compiles ''components'' c1 of
                    None \<Rightarrow> None
                  | Some c2 \<Rightarrow> decodePattern compiles ''layers'' c2))
          else Some parsedConfig)"

text \<open>
  The constructor: \<open>this.config = this.loadConfigFromDocument() || {...this.defaultConfig}\<close>.
\<close>

definition initialConfig :: "(string \<Rightarrow> string \<Rightarrow> bool) \<Rightarrow> jsonText \<Rightarrow> jsval" where
  "initialConfig compiles pluginDataStr =
     (case loadConfigFromDocument compiles pluginDataStr of
        Some loaded \<Rightarrow> if truthy loaded then loaded else configObject defaultConfig
      | None \<Rightarrow> configObject defaultConfig)"

section \<open>The editor's entry points\<close>

text \<open>
  What a handler of the settings form does with its input: it shows an alert, or it
  posts an \<open>update-config\<close> message carrying a partial configuration. The plugin's
  \<open>handleConfigMessages\<close> passes the message's \<open>config\<close> to \<open>updateConfig\<close>; after an
  alert no message arrives and the configuration stays. The message is taken as
  delivered unchanged.
\<close>

datatype uiAction = Alert string | PostUpdateConfig jsval

definition patternUpdate :: "string \<Rightarrow> jsval \<Rightarrow> jsval" where
  "patternUpdate key pattern = JObj [(''naming'', JObj [(''patterns'', JObj [(key, pattern)])])]"

text \<open>
  The \<open>change\<close> handler of the frame-pattern field: \<open>new RegExp(e.target.value)\<close> inside
  a \<open>try\<close>, then the update; the alert when the constructor throws.
\<close>

definition framePatternChange :: "(string \<Rightarrow> string \<Rightarrow> bool) \<Rightarrow> string \<Rightarrow> uiAction" where
  "framePatternChange compiles val =
     (if compiles val [] then PostUpdateConfig (patternUpdate ''frames'' (JRegExp val []))
      else Alert ''Please enter a valid regular expression'')"

definition componentPatternChange :: "(string \<Rightarrow> string \<Rightarrow> bool) \<Rightarrow> string \<Rightarrow> uiAction" where
  "componentPatternChange compiles val =
     (if compiles val [] then PostUpdateConfig (patternUpdate ''components'' (JRegExp val []))
      else Alert ''Please enter a valid regular expression'')"

definition layerPatternChange :: "(string \<Rightarrow> string \<Rightarrow> bool) \<Rightarrow> string \<Rightarrow> uiAction" where
  "layerPatternChange compiles val =
     (if compiles val [] then PostUpdateConfig (patternUpdate ''layers'' (JRegExp val []))
      else Alert ''Please enter a valid regular expression'')"

text \<open>
  The click handler of the manual import: \<open>JSON.parse(configStr)\<close> inside a \<open>try\<close>, then
  the parsed value is posted as the update; the alert when the parser throws.
\<close>

definition importManualClick :: "jsonText \<Rightarrow> uiAction" where
  "importManualClick configStr =
     (case configStr of
        JsonOf config \<Rightarrow> PostUpdateConfig config
      | _ \<Rightarrow> Alert ''Error importing configuration'')"

definition handleConfigMessages :: "jsval \<Rightarrow> uiAction \<Rightarrow> jsval" where
  "handleConfigMessages config action =
     (case action of
        PostUpdateConfig newConfig \<Rightarrow> updateConfig config newConfig
      | Alert msg \<Rightarrow> config)"

section \<open>Recording an issue\<close>

text \<open>
  \<open>addIssue\<close> pushes the issue, clears \<open>passed\<close>, counts it, and counts it under its
  category: an absent (or zero) count is first set to \<open>0\<close>, then incremented.
\<close>

definition addIssue :: "CheckResults \<Rightarrow> string \<Rightarrow> message \<Rightarrow> string \<Rightarrow> CheckResults" where
  "addIssue results cat msg nid =
     (let counts = categoryCounts (stats results);
          counts0 = (case counts cat of
                       None \<Rightarrow> counts(cat \<mapsto> 0)
                     | Some n \<Rightarrow> if n = 0 then counts(cat \<mapsto> 0) else counts);
          counts1 = (case counts0 cat of
                       None \<Rightarrow> counts0
                     | Some n \<Rightarrow> counts0(cat \<mapsto> n + 1))
      in results
           \<lparr> passed := False,
             issues := issues results @ [\<lparr> category = cat, message = msg, nodeId = nid \<rparr>],
             stats := (stats results)
                        \<lparr> issuesFound := issuesFound (stats results) + 1,
                          categoryCounts := counts1 \<rparr> \<rparr>)"

section \<open>Helper functions of the checks\<close>

text \<open>
  \<open>rgbToHex\<close>: each channel is scaled by 255, rounded by \<open>Math.round\<close> (to the nearest
  integer, a half upwards), written in base 16 (\<open>toString(16)\<close>, with a minus sign for a
  negative integer) and padded to two digits when it has one; the whole is upper-cased.
\<close>

definition mathRound :: "real \<Rightarrow> int" where
  "mathRound v = \<lfloor>v + 1 / 2\<rfloor>"

function hexString :: "nat \<Rightarrow> string" where
  "hexString n = (if n < 16 then [digitChar n] else hexString (n div 16) @ [digitChar (n mod 16)])"
  by pat_completeness auto
termination
  by (relation "measure id") auto

definition toString16 :: "int \<Rightarrow> string" where
  "toString16 n = (if n < 0 then CHR ''-'' # hexString (nat (- n)) else hexString (nat n))"

definition toHex :: "real \<Rightarrow> string" where
  "toHex v = (let hex = toString16 (mathRound (v * 255)) in if length hex = 1 then CHR ''0'' # hex else hex)"

definition rgbToHex :: "real \<Rightarrow> real \<Rightarrow> real \<Rightarrow> string" where
  "rgbToHex r g b = toUpperCase (''#'' @ toHex r @ toHex g @ toHex b)"

definition isColorAllowed :: "StandardsConfig \<Rightarrow> string \<Rightarrow> bool" where
  "isColorAllowed cfg color = (color \<in> set (allowedColors (colors cfg)))"

text \<open>
  The remainder operator \<open>a % b\<close> on numbers, for \<open>b \<noteq> 0\<close>: the quotient is truncated
  towards zero, so the remainder has the sign of the dividend \<open>a\<close>. Numbers are exact
  here; the rounding of floating-point arithmetic is not represented.
\<close>

definition jsRemainder :: "real \<Rightarrow> real \<Rightarrow> real" where
  "jsRemainder a b = a - b * of_int (if a / b < 0 then \<lceil>a / b\<rceil> else \<lfloor>a / b\<rfloor>)"

text \<open>
  \<open>isOnGrid\<close>. With a grid unit of \<open>0\<close> the remainder is \<open>NaN\<close> and both comparisons are
  false.
\<close>

definition isOnGrid :: "StandardsConfig \<Rightarrow> real \<Rightarrow> bool" where
  "isOnGrid cfg val =
     (let gridUnit = baseUnit (spacing cfg);
          tolerance = (gridUnit * tolerancePercent (spacing cfg)) / 100
      in if gridUnit = 0 then False
         else (let remainder = jsRemainder val gridUnit
               in remainder \<le> tolerance \<or> (gridUnit - remainder) \<le> tolerance))"

definition getFrameType :: "string \<Rightarrow> string option" where
  "getFrameType nm =
     (let lowerName = toLowerCase nm in
      if strIncludes lowerName ''screen'' then Some ''screen''
      else if strIncludes lowerName ''card'' then Some ''card''
      else None)"

text \<open>
  \<open>getComponentName\<close>: \<open>name.split('/')\<close> has more than one part exactly when the name
  contains a slash, and its last part is what follows the last slash.
\<close>

definition getComponentName :: "string \<Rightarrow> string" where
  "getComponentName nm =
     (if CHR ''/'' \<in> set nm
      then trim (rev (takeWhile (\<lambda>c. c \<noteq> CHR ''/'') (rev nm)))
      else nm)"

fun hasComponentNamed :: "node \<Rightarrow> string \<Rightarrow> bool"
  and anyChildNamed :: "node list \<Rightarrow> string \<Rightarrow> bool"
where
  "hasComponentNamed (Leaf p) componentName = False"
| "hasComponentNamed (Parent p cs) componentName = anyChildNamed cs componentName"
| "anyChildNamed [] componentName = False"
| "anyChildNamed (child # rest) componentName =
     (if strIncludes (node_name (propsOf child)) componentName then True
      else if hasChildren child \<and> hasComponentNamed child componentName then True
      else anyChildNamed rest componentName)"

definition getNodeColor :: "nodeProps \<Rightarrow> string option" where
  "getNodeColor p =
     (case fills p of
        Some (SOLID vis (RGB r g b) # rest) \<Rightarrow> if vis then Some (rgbToHex r g b) else None
      | _ \<Rightarrow> None)"

definition hasAdequateContrast :: "string \<Rightarrow> string \<Rightarrow> bool" where
  "hasAdequateContrast color1 color2 = True"

definition isInteractiveElement :: "nodeProps \<Rightarrow> bool" where
  "isInteractiveElement p =
     list_ex (\<lambda>keyword. strIncludes (toLowerCase (node_name p)) keyword)
       [''button'', ''link'', ''input'', ''toggle'', ''checkbox'', ''radio'']"

section \<open>The six checks\<close>

text \<open>
  Each check takes the results and returns them with the issues it found appended, in
  the order of its \<open>addIssue\<close> calls.
\<close>

fun checkFills :: "StandardsConfig \<Rightarrow> nodeProps \<Rightarrow> paint list \<Rightarrow> CheckResults \<Rightarrow> CheckResults" where
  "checkFills cfg p [] results = results"
| "checkFills cfg p (fill # rest) results =
     checkFills cfg p rest
       (case fill of
          SOLID vis (RGB r g b) \<Rightarrow>
            if vis then
              (let color = rgbToHex r g b in
               if \<not> isColorAllowed cfg color
               then addIssue results ''color'' (NonStandardColor color (node_name p)) (node_id p)
               else results)
            else results
        | OtherPaint ty vis \<Rightarrow> results)"

fun checkStrokes :: "StandardsConfig \<Rightarrow> nodeProps \<Rightarrow> paint list \<Rightarrow> CheckResults \<Rightarrow> CheckResults" where
  "checkStrokes cfg p [] results = results"
| "checkStrokes cfg p (stroke # rest) results =
     checkStrokes cfg p rest
       (case stroke of
          SOLID vis (RGB r g b) \<Rightarrow>
            if vis then
              (let color = rgbToHex r g b in
               if \<not> isColorAllowed cfg color
               then addIssue results ''color'' (NonStandardStrokeColor color (node_name p)) (node_id p)
               else results)
            else results
        | OtherPaint ty vis \<Rightarrow> results)"

definition checkColors :: "StandardsConfig \<Rightarrow> nodeProps \<Rightarrow> CheckResults \<Rightarrow> CheckResults" where
  "checkColors cfg p results =
     (let r1 = (case fills p of Some fs \<Rightarrow> checkFills cfg p fs results | None \<Rightarrow> results)
      in case strokes p of Some ss \<Rightarrow> checkStrokes cfg p ss r1 | None \<Rightarrow> r1)"

text \<open>
  \<open>checkTypography\<close>, up to its return. For a text with a style id it starts the lookup
  \<open>figma.getStyleByIdAsync\<close>, whose callbacks run after \<open>runAllChecks\<close> has returned;
  their effect on the results is \<open>textStyleSettled\<close> below.
\<close>

definition checkTypography :: "StandardsConfig \<Rightarrow> nodeProps \<Rightarrow> CheckResults \<Rightarrow> CheckResults" where
  "checkTypography cfg p results =
     (if node_type p = TEXT then
        (let r1 = (case fontName p of
                     FontName family style \<Rightarrow>
                       if family \<notin> set (allowedFonts (typography cfg))
                       then addIssue results ''typography''
                              (NonStandardFont family (node_name p)) (node_id p)
                       else results
                   | MixedFont \<Rightarrow> results)
         in if textStyleId p = StyleId []
            then addIssue r1 ''typography'' (NoTextStyle (node_name p)) (node_id p)
            else r1)
      else results)"

text \<open>
  The callbacks of the style lookup: the promise is rejected, or it resolves to no style
  or to a style with a name.
\<close>

datatype styleLookup = Rejected | Resolved "string option"

definition textStyleSettled :: "StandardsConfig \<Rightarrow> nodeProps \<Rightarrow> styleLookup \<Rightarrow> CheckResults \<Rightarrow> CheckResults" where
  "textStyleSettled cfg p outcome results =
     (case outcome of
        Rejected \<Rightarrow> addIssue results ''typography'' (TextStyleError (node_name p)) (node_id p)
      | Resolved None \<Rightarrow> results
      | Resolved (Some styleName) \<Rightarrow>
          if list_ex (\<lambda>pat. strIncludes styleName pat) (textStyles (typography cfg))
          then results
          else addIssue results ''typography''
                 (NonStandardTextStyle (node_name p) styleName) (node_id p))"

definition checkSpacing :: "StandardsConfig \<Rightarrow> nodeProps \<Rightarrow> CheckResults \<Rightarrow> CheckResults" where
  "checkSpacing cfg p results =
     (if node_type p = FRAME \<or> node_type p = GROUP \<or> node_type p = COMPONENT
         \<or> node_type p = INSTANCE then
        (let r1 = (if \<not> isOnGrid cfg (node_x p)
                   then addIssue results ''spacing'' (XNotOnGrid (node_name p) (node_x p)) (node_id p)
                   else results);
             r2 = (if \<not> isOnGrid cfg (node_y p)
                   then addIssue r1 ''spacing'' (YNotOnGrid (node_name p) (node_y p)) (node_id p)
                   else r1);
             r3 = (if \<not> isOnGrid cfg (width p)
                   then addIssue r2 ''spacing'' (WidthNotOnGrid (node_name p) (width p)) (node_id p)
                   else r2);
             r4 = (if \<not> isOnGrid cfg (height p)
                   then addIssue r3 ''spacing'' (HeightNotOnGrid (node_name p) (height p)) (node_id p)
                   else r3)
         in if node_type p = FRAME \<and> layoutMode p \<noteq> None \<and> layoutMode p \<noteq> Some ''NONE'' then
              (let r5 = (if \<not> isOnGrid cfg (paddingTop p)
                         then addIssue r4 ''spacing''
                                (NonStandardTopPadding (node_name p) (paddingTop p)) (node_id p)
                         else r4);
                   r6 = (if \<not> isOnGrid cfg (paddingRight p)
                         then addIssue r5 ''spacing''
                                (NonStandardRightPadding (node_name p) (paddingRight p)) (node_id p)
                         else r5);
                   r7 = (if \<not> isOnGrid cfg (paddingBottom p)
                         then addIssue r6 ''spacing''
                                (NonStandardBottomPadding (node_name p) (paddingBottom p)) (node_id p)
                         else r6)
               in if \<not> isOnGrid cfg (paddingLeft p)
                  then addIssue r7 ''spacing''
                         (NonStandardLeftPadding (node_name p) (paddingLeft p)) (node_id p)
                  else r7)
            else r4)
      else results)"

text \<open>The loop of \<open>checkComponents\<close> over the required components of a frame type.\<close>

fun checkRequired :: "node \<Rightarrow> string list \<Rightarrow> CheckResults \<Rightarrow> CheckResults" where
  "checkRequired nd [] results = results"
| "checkRequired nd (requiredComponent # rest) results =
     checkRequired nd rest
       (let hasComponent =
              (if hasChildren nd then hasComponentNamed nd requiredComponent else False)
        in if \<not> hasComponent
           then addIssue results ''components''
                  (MissingRequiredComponent (node_name (propsOf nd)) requiredComponent)
                  (node_id (propsOf nd))
           else results)"

text \<open>
  \<open>checkComponents\<close>. The lookup \<open>requiredComponents[frameType]\<close> is the first entry
  under the key; an array is truthy, so every entry found is used.
\<close>

definition checkComponents :: "StandardsConfig \<Rightarrow> node \<Rightarrow> CheckResults \<Rightarrow> CheckResults" where
  "checkComponents cfg nd results =
     (let p = propsOf nd;
          r1 = (if node_type p = FRAME then
                  (case getFrameType (node_name p) of
                     Some frameType \<Rightarrow>
                       (case map_of (requiredComponents (components cfg)) frameType of
                          Some required \<Rightarrow> checkRequired nd required results
                        | None \<Rightarrow> results)
                   | None \<Rightarrow> results)
                else results);
          componentName = getComponentName (node_name p)
      in if componentName \<noteq> [] \<and> componentName \<in> set (mustBeInstances (components cfg)) then
           (if node_type p \<noteq> INSTANCE \<and> node_type p \<noteq> COMPONENT
            then addIssue r1 ''components'' (ShouldBeInstance (node_name p)) (node_id p)
            else r1)
         else r1)"

definition checkNaming :: "(RegExp \<Rightarrow> string \<Rightarrow> bool) \<Rightarrow> StandardsConfig \<Rightarrow> nodeProps \<Rightarrow> CheckResults \<Rightarrow> CheckResults" where
  "checkNaming test cfg p results =
     (let r1 = (if node_type p = FRAME then
                  (if \<not> test (frames (patterns (naming cfg))) (node_name p)
                   then addIssue results ''naming'' (FrameNaming (node_name p)) (node_id p)
                   else results)
                else results);
          r2 = (if node_type p = COMPONENT \<or> node_type p = INSTANCE then
                  (if \<not> test (components' (patterns (naming cfg))) (node_name p)
                   then addIssue r1 ''naming'' (ComponentNaming (node_name p)) (node_id p)
                   else r1)
                else r1)
      in if node_type p \<noteq> FRAME \<and> node_type p \<noteq> COMPONENT \<and> node_type p \<noteq> INSTANCE then
           (if \<not> test (layers (patterns (naming cfg))) (node_name p)
            then addIssue r2 ''naming'' (LayerNaming (node_name p)) (node_id p)
            else r2)
         else r2)"

definition checkAccessibility :: "StandardsConfig \<Rightarrow> nodeProps \<Rightarrow> CheckResults \<Rightarrow> CheckResults" where
  "checkAccessibility cfg p results =
     (let r1 = (if node_type p = TEXT \<and> fills p \<noteq> None then
                  (case getNodeColor p of
                     Some textColor \<Rightarrow>
                       if textColor \<noteq> [] \<and> \<not> hasAdequateContrast textColor ''#FFFFFF''
                       then addIssue results ''accessibility''
                              (InsufficientContrast (node_name p)) (node_id p)
                       else results
                   | None \<Rightarrow> results)
                else results)
      in if isInteractiveElement p \<and> hasWidthHeight p then
           (if width p < interactiveElementMinSize (accessibility cfg)
               \<or> height p < interactiveElementMinSize (accessibility cfg)
            then addIssue r1 ''accessibility''
                   (TooSmall (node_name p) (width p) (height p)) (node_id p)
            else r1)
         else r1)"

section \<open>Traversal\<close>

text \<open>The six checks on one node, in the order \<open>processNode\<close> calls them.\<close>

definition runChecks :: "(RegExp \<Rightarrow> string \<Rightarrow> bool) \<Rightarrow> StandardsConfig \<Rightarrow> node \<Rightarrow> CheckResults \<Rightarrow> CheckResults" where
  "runChecks test cfg nd results =
     checkAccessibility cfg (propsOf nd)
       (checkNaming test cfg (propsOf nd)
         (checkComponents cfg nd
           (checkSpacing cfg (propsOf nd)
             (checkTypography cfg (propsOf nd)
               (checkColors cfg (propsOf nd) results)))))"

definition countNode :: "CheckResults \<Rightarrow> CheckResults" where
  "countNode results =
     results \<lparr> stats := (stats results) \<lparr> nodesChecked := nodesChecked (stats results) + 1 \<rparr> \<rparr>"

text \<open>
  \<open>processNode\<close> counts the node, runs the checks on it and, on a deep check of a node
  with children, processes the children in order; \<open>processChildren\<close> is that loop.
\<close>

fun processNode :: "(RegExp \<Rightarrow> string \<Rightarrow> bool) \<Rightarrow> StandardsConfig \<Rightarrow> node \<Rightarrow> CheckResults \<Rightarrow> bool \<Rightarrow> CheckResults"
  and processChildren :: "(RegExp \<Rightarrow> string \<Rightarrow> bool) \<Rightarrow> StandardsConfig \<Rightarrow> node list \<Rightarrow> CheckResults \<Rightarrow> bool \<Rightarrow> CheckResults"
where
  "processNode test cfg (Leaf p) results isDeepCheck =
     runChecks test cfg (Leaf p) (countNode results)"
| "processNode test cfg (Parent p cs) results isDeepCheck =
     (let r1 = runChecks test cfg (Parent p cs) (countNode results)
      in if isDeepCheck then processChildren test cfg cs r1 isDeepCheck else r1)"
| "processChildren test cfg [] results isDeepCheck = results"
| "processChildren test cfg (child # rest) results isDeepCheck =
     processChildren test cfg rest (processNode test cfg child results isDeepCheck) isDeepCheck"

definition emptyResults :: CheckResults where
  "emptyResults =
     \<lparr> passed = True, issues = [],
       stats = \<lparr> nodesChecked = 0, issuesFound = 0, categoryCounts = Map.empty \<rparr> \<rparr>"

definition runAllChecks :: "(RegExp \<Rightarrow> string \<Rightarrow> bool) \<Rightarrow> StandardsConfig \<Rightarrow> node \<Rightarrow> bool \<Rightarrow> CheckResults" where
  "runAllChecks test cfg nd isDeepCheck = processNode test cfg nd emptyResults isDeepCheck"

text \<open>The number of nodes of the subtree rooted at a node.\<close>

fun nodeCount :: "node \<Rightarrow> nat"
  and nodeCounts :: "node list \<Rightarrow> nat"
where
  "nodeCount (Leaf p) = 1"
| "nodeCount (Parent p cs) = 1 + nodeCounts cs"
| "nodeCounts [] = 0"
| "nodeCounts (c # cs) = nodeCount c + nodeCounts cs"

section \<open>Notions used to state the properties\<close>

text \<open>
  Export followed by import, as the plugin offers it: the exported text is pasted into
  the manual import, whose handler parses it and posts it as an update.
\<close>

definition exportThenImport :: "jsval \<Rightarrow> jsval" where
  "exportThenImport config =
     handleConfigMessages config (importManualClick (exportCurrentConfig config))"

text \<open>
  What \<open>deepMerge\<close> stores under a key of the source: the merge with the target's value
  when the source's value passes \<open>isObject\<close> and the target has the key, the source's
  value otherwise.
\<close>

definition mergedValue :: "jsval \<Rightarrow> string \<Rightarrow> jsval \<Rightarrow> jsval" where
  "mergedValue target key sv =
     (if isObject sv \<and> hasKey target key then deepMerge (getProp target key) sv else sv)"

text \<open>The default configuration with another grid.\<close>

definition gridConfig :: "real \<Rightarrow> real \<Rightarrow> StandardsConfig" where
  "gridConfig unit percent =
     defaultConfig \<lparr> spacing := \<lparr> baseUnit = unit, tolerancePercent = percent \<rparr> \<rparr>"

text \<open>
  The issues of one category, and the results that a visit of \<open>n\<close> nodes with the issues
  \<open>js\<close> must show: \<open>passed\<close> exactly when there is no issue, \<open>issuesFound\<close> their number,
  and a count for exactly the categories that occur.
\<close>

definition ofCategory :: "string \<Rightarrow> CheckIssue list \<Rightarrow> CheckIssue list" where
  "ofCategory c js = filter (\<lambda>i. category i = c) js"

definition resultsOf :: "nat \<Rightarrow> CheckIssue list \<Rightarrow> CheckResults" where
  "resultsOf n js =
     \<lparr> passed = (js = []), issues = js,
       stats = \<lparr> nodesChecked = n, issuesFound = length js,
                 categoryCounts = (\<lambda>c. if ofCategory c js = [] then None
                                        else Some (length (ofCategory c js))) \<rparr> \<rparr>"

text \<open>
  The invariant of the results, at a category \<open>c\<close>: \<open>passed\<close> says that there is no
  issue, \<open>issuesFound\<close> is the number of issues, and the count of \<open>c\<close> is absent when no
  issue has that category and is their number otherwise.
\<close>

definition consistent :: "CheckResults \<Rightarrow> string \<Rightarrow> bool" where
  "consistent r c =
     (passed r = (issues r = [])
      \<and> issuesFound (stats r) = length (issues r)
      \<and> categoryCounts (stats r) c =
          (if ofCategory c (issues r) = [] then None
           else Some (length (ofCategory c (issues r)))))"

text \<open>
  The issues of each check as a list, in the order in which the check records them.
  \<open>onlyIf b x\<close> is the issue \<open>x\<close> when \<open>b\<close> holds and nothing otherwise.
\<close>

definition issue :: "string \<Rightarrow> message \<Rightarrow> nodeProps \<Rightarrow> CheckIssue" where
  "issue cat msg p = \<lparr> category = cat, message = msg, nodeId = node_id p \<rparr>"

definition onlyIf :: "bool \<Rightarrow> 'a \<Rightarrow> 'a list" where
  "onlyIf b x = (if b then [x] else [])"

fun paintIssues :: "(string \<Rightarrow> string \<Rightarrow> message) \<Rightarrow> StandardsConfig \<Rightarrow> nodeProps \<Rightarrow> paint list \<Rightarrow> CheckIssue list" where
  "paintIssues mk cfg p [] = []"
| "paintIssues mk cfg p (SOLID vis (RGB r g b) # rest) =
     onlyIf (vis \<and> \<not> isColorAllowed cfg (rgbToHex r g b))
       (issue ''color'' (mk (rgbToHex r g b) (node_name p)) p)
     @ paintIssues mk cfg p rest"
| "paintIssues mk cfg p (OtherPaint ty vis # rest) = paintIssues mk cfg p rest"

definition colorIssues :: "StandardsConfig \<Rightarrow> nodeProps \<Rightarrow> CheckIssue list" where
  "colorIssues cfg p =
     (case fills p of Some fs \<Rightarrow> paintIssues NonStandardColor cfg p fs | None \<Rightarrow> [])
     @ (case strokes p of Some ss \<Rightarrow> paintIssues NonStandardStrokeColor cfg p ss | None \<Rightarrow> [])"

definition typographyIssues :: "StandardsConfig \<Rightarrow> nodeProps \<Rightarrow> CheckIssue list" where
  "typographyIssues cfg p =
     (if node_type p = TEXT then
        (case fontName p of
           FontName family style \<Rightarrow>
             onlyIf (family \<notin> set (allowedFonts (typography cfg)))
               (issue ''typography'' (NonStandardFont family (node_name p)) p)
         | MixedFont \<Rightarrow> [])
        @ onlyIf (textStyleId p = StyleId []) (issue ''typography'' (NoTextStyle (node_name p)) p)
      else [])"

definition gridIssue :: "StandardsConfig \<Rightarrow> nodeProps \<Rightarrow> (string \<Rightarrow> real \<Rightarrow> message) \<Rightarrow> real \<Rightarrow> CheckIssue list" where
  "gridIssue cfg p mk v = onlyIf (\<not> isOnGrid cfg v) (issue ''spacing'' (mk (node_name p) v) p)"

definition spacingIssues :: "StandardsConfig \<Rightarrow> nodeProps \<Rightarrow> CheckIssue list" where
  "spacingIssues cfg p =
     (if node_type p = FRAME \<or> node_type p = GROUP \<or> node_type p = COMPONENT
         \<or> node_type p = INSTANCE then
        gridIssue cfg p XNotOnGrid (node_x p) @ gridIssue cfg p YNotOnGrid (node_y p)
        @ gridIssue cfg p WidthNotOnGrid (width p) @ gridIssue cfg p HeightNotOnGrid (height p)
        @ (if node_type p = FRAME \<and> layoutMode p \<noteq> None \<and> layoutMode p \<noteq> Some ''NONE'' then
             gridIssue cfg p NonStandardTopPadding (paddingTop p)
             @ gridIssue cfg p NonStandardRightPadding (paddingRight p)
             @ gridIssue cfg p NonStandardBottomPadding (paddingBottom p)
             @ gridIssue cfg p NonStandardLeftPadding (paddingLeft p)
           else [])
      else [])"

fun requiredIssues :: "node \<Rightarrow> string list \<Rightarrow> CheckIssue list" where
  "requiredIssues nd [] = []"
| "requiredIssues nd (rc # rest) =
     onlyIf (\<not> (hasChildren nd \<and> hasComponentNamed nd rc))
       (issue ''components'' (MissingRequiredComponent (node_name (propsOf nd)) rc) (propsOf nd))
     @ requiredIssues nd rest"

definition requiredFor :: "StandardsConfig \<Rightarrow> nodeProps \<Rightarrow> string list" where
  "requiredFor cfg p =
     (if node_type p = FRAME then
        (case getFrameType (node_name p) of
           Some frameType \<Rightarrow>
             (case map_of (requiredComponents (components cfg)) frameType of
                Some required \<Rightarrow> required
              | None \<Rightarrow> [])
         | None \<Rightarrow> [])
      else [])"

definition componentIssues :: "StandardsConfig \<Rightarrow> node \<Rightarrow> CheckIssue list" where
  "componentIssues cfg nd =
     requiredIssues nd (requiredFor cfg (propsOf nd))
     @ onlyIf (getComponentName (node_name (propsOf nd)) \<noteq> []
             \<and> getComponentName (node_name (propsOf nd)) \<in> set (mustBeInstances (components cfg))
             \<and> node_type (propsOf nd) \<noteq> INSTANCE \<and> node_type (propsOf nd) \<noteq> COMPONENT)
         (issue ''components'' (ShouldBeInstance (node_name (propsOf nd))) (propsOf nd))"

definition namingIssues :: "(RegExp \<Rightarrow> string \<Rightarrow> bool) \<Rightarrow> StandardsConfig \<Rightarrow> nodeProps \<Rightarrow> CheckIssue list" where
  "namingIssues test cfg p =
     onlyIf (node_type p = FRAME \<and> \<not> test (frames (patterns (naming cfg))) (node_name p))
       (issue ''naming'' (FrameNaming (node_name p)) p)
     @ onlyIf ((node_type p = COMPONENT \<or> node_type p = INSTANCE)
             \<and> \<not> test (components' (patterns (naming cfg))) (node_name p))
         (issue ''naming'' (ComponentNaming (node_name p)) p)
     @ onlyIf (node_type p \<noteq> FRAME \<and> node_type p \<noteq> COMPONENT \<and> node_type p \<noteq> INSTANCE
             \<and> \<not> test (layers (patterns (naming cfg))) (node_name p))
         (issue ''naming'' (LayerNaming (node_name p)) p)"

definition accessibilityIssues :: "StandardsConfig \<Rightarrow> nodeProps \<Rightarrow> CheckIssue list" where
  "accessibilityIssues cfg p =
     onlyIf (isInteractiveElement p \<and> hasWidthHeight p
             \<and> (width p < interactiveElementMinSize (accessibility cfg)
                 \<or> height p < interactiveElementMinSize (accessibility cfg)))
       (issue ''accessibility'' (TooSmall (node_name p) (width p) (height p)) p)"

definition nodeIssues :: "(RegExp \<Rightarrow> string \<Rightarrow> bool) \<Rightarrow> StandardsConfig \<Rightarrow> node \<Rightarrow> CheckIssue list" where
  "nodeIssues test cfg nd =
     colorIssues cfg (propsOf nd) @ typographyIssues cfg (propsOf nd)
     @ spacingIssues cfg (propsOf nd) @ componentIssues cfg nd
     @ namingIssues test cfg (propsOf nd) @ accessibilityIssues cfg (propsOf nd)"

fun treeIssues :: "(RegExp \<Rightarrow> string \<Rightarrow> bool) \<Rightarrow> StandardsConfig \<Rightarrow> node \<Rightarrow> CheckIssue list"
  and forestIssues :: "(RegExp \<Rightarrow> string \<Rightarrow> bool) \<Rightarrow> StandardsConfig \<Rightarrow> node list \<Rightarrow> CheckIssue list"
where
  "treeIssues test cfg (Leaf p) = nodeIssues test cfg (Leaf p)"
| "treeIssues test cfg (Parent p cs) = nodeIssues test cfg (Parent p cs) @ forestIssues test cfg cs"
| "forestIssues test cfg [] = []"
| "forestIssues test cfg (c # cs) = treeIssues test cfg c @ forestIssues test cfg cs"

text \<open>
  The nodes of the example scenario: any frame named \<open>Screen - home\<close>, and any text whose
  font family is \<open>Arial\<close> and whose style id is empty. A concrete text node for
  evaluation.
\<close>

definition screenFrame :: "nodeProps \<Rightarrow> nodeProps" where
  "screenFrame fp = fp \<lparr> node_type := FRAME, node_name := ''Screen - home'' \<rparr>"

definition arialText :: "nodeProps \<Rightarrow> string \<Rightarrow> nodeProps" where
  "arialText tp style =
     tp \<lparr> node_type := TEXT, fontName := FontName ''Arial'' style, textStyleId := StyleId [] \<rparr>"

definition sampleText :: nodeProps where
  "sampleText =
     \<lparr> node_id = ''1:2'', node_name = ''title'', node_type = TEXT, fills = None, strokes = None,
       fontName = FontName ''Arial'' ''Regular'', textStyleId = StyleId [],
       node_x = 0, node_y = 0, width = 100, height = 20, hasWidthHeight = True,
       layoutMode = None, paddingTop = 0, paddingRight = 0, paddingBottom = 0, paddingLeft = 0 \<rparr>"

text \<open>
  A configuration with only the entries of \<open>requiredComponents\<close> whose key is \<open>screen\<close> or
  \<open>card\<close>.
\<close>

definition recognisedOnly :: "StandardsConfig \<Rightarrow> StandardsConfig" where
  "recognisedOnly cfg =
     cfg \<lparr> components := (components cfg)
             \<lparr> requiredComponents :=
                 filter (\<lambda>(k, v). k = ''screen'' \<or> k = ''card'')
                   (requiredComponents (components cfg)) \<rparr> \<rparr>"

section \<open>Deep merge: what a key of the source becomes\<close>

lemma lookupKey_assign:
  "lookupKey (assign kvs k v) k' = (if k' = k then v else lookupKey kvs k')"
  by (induction kvs) auto

text \<open>
  After the loop, a key holds what the last entry of the source under that key made of
  it, and a key that the source does not have holds what \<open>output\<close> held.
\<close>

lemma lookupKey_mergeKeys:
  "lookupKey (mergeKeys target skvs out) k =
     (case map_of (rev skvs) k of
        None \<Rightarrow> lookupKey out k
      | Some sv \<Rightarrow> mergedValue target k sv)"
proof (induction skvs arbitrary: out)
  case Nil
  then show ?case by simp
next
  case (Cons e skvs)
  obtain key sv where e: "e = (key, sv)" by (cases e)
  have m: "map_of (rev ((key, sv) # skvs)) k =
      (case map_of (rev skvs) k of
         None \<Rightarrow> (if k = key then Some sv else None)
       | Some v \<Rightarrow> Some v)"
    by (simp add: map_add_def split: option.splits)
  show ?case
  proof (cases "map_of (rev skvs) k")
    case None
    then show ?thesis
      by (simp add: m e Cons.IH lookupKey_assign mergedValue_def del: map_of.simps rev.simps)
  next
    case (Some v)
    then show ?thesis
      by (simp add: m e Cons.IH del: map_of.simps rev.simps)
  qed
qed

text \<open>
  The merge of two plain objects, field by field: a field of the source that is an
  array, a string, a number, a boolean or \<open>null\<close> replaces the target's; a field that
  \<open>isObject\<close> accepts is merged into the target's field of that name when there is one;
  the other fields of the target stay.
\<close>

lemma deepMerge_field:
  "getProp (deepMerge (JObj tkvs) (JObj skvs)) k =
     (case map_of (rev skvs) k of
        None \<Rightarrow> getProp (JObj tkvs) k
      | Some sv \<Rightarrow> mergedValue (JObj tkvs) k sv)"
  by (simp add: lookupKey_mergeKeys split: option.splits)

lemma deepMerge_replaces:
  assumes "map_of (rev skvs) k = Some sv" and "\<not> isObject sv"
  shows "getProp (deepMerge (JObj tkvs) (JObj skvs)) k = sv"
  using assms deepMerge_field [of tkvs skvs k] by (simp add: mergedValue_def)

lemma deepMerge_of_patterns:
  "deepMerge (JRegExp s f) (JRegExp s' f') = JObj []"
  by simp

section \<open>Export, import and load\<close>

lemmas config_defs =
  exportThenImport_def handleConfigMessages_def importManualClick_def exportCurrentConfig_def
  JSON_stringify_def encodePatterns_def encodePattern_def setPattern_def updateConfig_def
  getPattern_def configObject_def regexObject_def stringArray_def patternUpdate_def

text \<open>
  For every configuration of the interface's type, the patterns that come back from an
  export followed by an import are the strings of the export, not patterns.
\<close>

lemma export_then_import_frames:
  "getPattern (exportThenImport (configObject c)) ''frames''
     = JStr (''/'' @ source (frames (patterns (naming c))) @ ''/''
             @ flags (frames (patterns (naming c))))"
  by (simp add: config_defs)

lemma export_then_import_differs:
  "exportThenImport (configObject c) \<noteq> configObject c"
  by (simp add: config_defs)

text \<open>
  Claim C1 says that exporting a configuration and then applying \<open>update\<close> to the parsed
  export gives the original configuration back, its naming patterns again executable
  patterns equal to the originals. On the default configuration this fails:
  \<open>updateConfig\<close> merges the exported strings in as they are, so the frame pattern, which
  was the pattern \<open>/^[A-Z][a-z]+ - [a-z0-9-_]+$/\<close>, comes back as the string of that
  text, and the configuration is not the original one. (\<open>loadConfigFromDocument\<close>
  decodes the same encoding; \<open>updateConfig\<close> does not.)
\<close>

theorem export_then_import_default_patterns_are_strings:
  "getPattern (configObject defaultConfig) ''frames'' = JRegExp ''^[A-Z][a-z]+ - [a-z0-9-_]+$'' []
   \<and> getPattern (exportThenImport (configObject defaultConfig)) ''frames''
       = JStr ''/^[A-Z][a-z]+ - [a-z0-9-_]+$/''
   \<and> getPattern (exportThenImport (configObject defaultConfig)) ''layers''
       = JStr ''/^[a-z][a-z0-9-_]+$/''
   \<and> exportThenImport (configObject defaultConfig) \<noteq> configObject defaultConfig"
  by (simp add: config_defs defaultConfig_def)

text \<open>
  The pattern fields of the settings form do reject a text that does not compile: the
  live configuration stays as it is.
\<close>

lemma framePatternChange_rejects:
  "\<not> compiles val [] \<Longrightarrow> handleConfigMessages config (framePatternChange compiles val) = config"
  by (simp add: handleConfigMessages_def framePatternChange_def)

text \<open>The manual import applies whatever pattern text it is given.\<close>

lemma import_accepts_any_pattern_text:
  "getPattern (handleConfigMessages (configObject c)
      (importManualClick (JsonOf (patternUpdate ''frames'' (JStr txt))))) ''frames'' = JStr txt"
  by (simp add: config_defs)

text \<open>
  Claim C2 says that an update from an editor in which a naming pattern does not compile
  is rejected before it is applied, and that the live configuration stays unchanged. The
  manual import is such an entry point and checks no pattern: the text
  \<open>{"naming":{"patterns":{"frames":"/[/"}}}\<close>, whose pattern \<open>[\<close> is not a regular
  expression, is merged into the default configuration, which then holds \<open>/[/\<close> as its
  frame pattern and is no longer the configuration it was.
\<close>

theorem manual_import_accepts_invalid_pattern:
  "getPattern (handleConfigMessages (configObject defaultConfig)
      (importManualClick (JsonOf (patternUpdate ''frames'' (JStr ''/[/''))))) ''frames''
     = JStr ''/[/''
   \<and> handleConfigMessages (configObject defaultConfig)
        (importManualClick (JsonOf (patternUpdate ''frames'' (JStr ''/[/''))))
       \<noteq> configObject defaultConfig"
  by (simp add: config_defs defaultConfig_def)

text \<open>
  Claim C5 says that the deep merge merges object-valued fields key by key and replaces
  a field of any other type outright, a pattern in particular. The first part is
  \<open>deepMerge_field\<close> above. A pattern is not replaced: \<open>isObject\<close> accepts a \<open>RegExp\<close>, so
  the new pattern is merged into the current one, and the merge of two patterns is the
  empty object. Updating the frame pattern of the default configuration to
  \<open>/^[a-z]+$/\<close> leaves \<open>{}\<close> in its place.
\<close>

theorem update_with_pattern_leaves_empty_object:
  "getPattern (updateConfig (configObject defaultConfig)
      (patternUpdate ''frames'' (JRegExp ''^[a-z]+$'' []))) ''frames'' = JObj []
   \<and> deepMerge (JObj [(''frames'', JRegExp ''^[A-Z]+$'' [])])
        (JObj [(''frames'', JRegExp ''^[a-z]+$'' [])])
       = JObj [(''frames'', JObj [])]"
  by (simp add: config_defs defaultConfig_def)

text \<open>
  Where \<open>loadConfigFromDocument\<close> does fail soft: on a text that is not JSON, and on a
  pattern in the shape of a regex literal that the constructor refuses.
\<close>

lemma load_malformed_json: "loadConfigFromDocument compiles NotJson = None"
  by (simp add: loadConfigFromDocument_def)

lemmas load_defs =
  loadConfigFromDocument_def decodePattern_def getPattern_def patternUpdate_def
  matchRegexLiteral_def isFlagChar_def isLineTerminator_def setPattern_def

lemma load_uncompilable_pattern:
  "\<not> compiles ''['' [] \<Longrightarrow>
     loadConfigFromDocument compiles (JsonOf (patternUpdate ''frames'' (JStr ''/[/''))) = None"
  by (simp add: load_defs)

lemma load_decodes_pattern:
  "compiles ''^[a-z]+$'' ''i'' \<Longrightarrow>
     loadConfigFromDocument compiles (JsonOf (patternUpdate ''frames'' (JStr ''/^[a-z]+$/i'')))
       = Some (patternUpdate ''frames'' (JRegExp ''^[a-z]+$'' ''i''))"
  by (simp add: load_defs)

text \<open>
  Claim C6 says that loading a stored text whose pattern encoding is malformed returns
  "not found" and never a configuration with a pattern that cannot be executed. A
  pattern text that is not in the shape \<open>/source/flags\<close> is left in place: for the stored
  text \<open>{"naming":{"patterns":{"frames":"[a-z]+"}}}\<close> the load returns the parsed
  object with the string \<open>[a-z]+\<close> as its frame pattern, whatever the constructor
  accepts, and the session starts with that configuration.
\<close>

theorem load_keeps_unencoded_pattern_text:
  "loadConfigFromDocument compiles (JsonOf (patternUpdate ''frames'' (JStr ''[a-z]+'')))
     = Some (patternUpdate ''frames'' (JStr ''[a-z]+''))
   \<and> getPattern (initialConfig compiles (JsonOf (patternUpdate ''frames'' (JStr ''[a-z]+''))))
        ''frames'' = JStr ''[a-z]+''"
  by (simp add: load_defs initialConfig_def)

section \<open>The grid test\<close>

text \<open>
  For a dividend that is not negative the remainder lies between \<open>0\<close> and the grid
  unit, and there the grid test behaves as a test of distance to a multiple: with no
  tolerance it accepts exactly the values whose remainder is \<open>0\<close>, and it does not
  change when the grid unit is added.
\<close>

lemma jsRemainder_nonneg:
  assumes "0 < u" and "0 \<le> v"
  shows "0 \<le> jsRemainder v u" and "jsRemainder v u < u"
proof -
  have q: "\<not> v / u < 0" using assms by (simp add: not_less)
  have f: "of_int \<lfloor>v / u\<rfloor> \<le> v / u" "v / u < of_int \<lfloor>v / u\<rfloor> + 1"
    by linarith+
  have "u * of_int \<lfloor>v / u\<rfloor> \<le> u * (v / u)"
    using f(1) assms(1) by (intro mult_left_mono) simp_all
  then have "u * of_int \<lfloor>v / u\<rfloor> \<le> v" using assms(1) by simp
  then show "0 \<le> jsRemainder v u" using q by (simp add: jsRemainder_def)
  have "u * (v / u) < u * (of_int \<lfloor>v / u\<rfloor> + 1)"
    using f(2) assms(1) by (intro mult_strict_left_mono) simp_all
  then have "v < u * (of_int \<lfloor>v / u\<rfloor> + 1)" using assms(1) by simp
  then show "jsRemainder v u < u" using q by (simp add: jsRemainder_def algebra_simps)
qed

lemma isOnGrid_exact_nonneg:
  assumes "0 < baseUnit (spacing cfg)" and "tolerancePercent (spacing cfg) = 0" and "0 \<le> v"
  shows "isOnGrid cfg v = (jsRemainder v (baseUnit (spacing cfg)) = 0)"
  using jsRemainder_nonneg [OF assms(1) assms(3)] assms
  by (auto simp add: isOnGrid_def Let_def)

lemma jsRemainder_shift:
  assumes "0 < u" and "0 \<le> v"
  shows "jsRemainder (v + u) u = jsRemainder v u"
proof -
  have "(v + u) / u = v / u + 1" using assms by (simp add: add_divide_distrib)
  moreover have "\<not> v / u < 0" "\<not> v / u + 1 < 0" using assms by (simp_all add: not_less)
  ultimately show ?thesis by (simp add: jsRemainder_def algebra_simps)
qed

lemma isOnGrid_periodic_nonneg:
  assumes "0 < baseUnit (spacing cfg)" and "0 \<le> v"
  shows "isOnGrid cfg (v + baseUnit (spacing cfg)) = isOnGrid cfg v"
  using jsRemainder_shift [OF assms] by (simp add: isOnGrid_def Let_def)

lemmas grid_defs = isOnGrid_def gridConfig_def defaultConfig_def jsRemainder_def

text \<open>
  Claim C3 says that with a tolerance of \<open>0\<close> the grid test accepts a value exactly when
  it is a multiple of the grid unit, for negative values too. The remainder of a
  negative value is negative, hence below any tolerance: with a grid unit of \<open>8\<close> and no
  tolerance, \<open>-3\<close> has the remainder \<open>-3\<close>, which is not \<open>0\<close>, and passes the test;
  \<open>3\<close> does not.
\<close>

theorem isOnGrid_accepts_negative_off_grid_value:
  "isOnGrid (gridConfig 8 0) (- 3)
   \<and> jsRemainder (- 3) 8 = - 3
   \<and> \<not> isOnGrid (gridConfig 8 0) 3"
  by (simp add: grid_defs)

text \<open>
  Claim C4 says that the grid test has the grid unit as a period, for negative values
  too. Under the default configuration (grid unit \<open>8\<close>, tolerance \<open>5\<close> percent) the
  value \<open>-3\<close> passes the test and \<open>-3 + 8 = 5\<close> does not.
\<close>

theorem isOnGrid_not_periodic_at_negative_value:
  "isOnGrid defaultConfig (- 3) \<and> \<not> isOnGrid defaultConfig (- 3 + 8)"
  by (simp add: grid_defs)

section \<open>The results of an evaluation\<close>

text \<open>Recording an issue in results of the expected form keeps the form.\<close>

lemma emptyResults_resultsOf: "emptyResults = resultsOf 0 []"
  by (simp add: emptyResults_def resultsOf_def ofCategory_def)

lemma addIssue_resultsOf:
  "addIssue (resultsOf n js) cat msg nid =
     resultsOf n (js @ [\<lparr> category = cat, message = msg, nodeId = nid \<rparr>])"
  by (auto simp add: addIssue_def resultsOf_def ofCategory_def Let_def fun_eq_iff)

lemma countNode_resultsOf: "countNode (resultsOf n js) = resultsOf (Suc n) js"
  by (simp add: countNode_def resultsOf_def)

lemma consistent_resultsOf: "consistent (resultsOf n js) c"
  by (simp add: consistent_def resultsOf_def)

lemma consistent_addIssue:
  "consistent r c \<Longrightarrow> consistent (addIssue r cat msg nid) c"
  by (auto simp add: consistent_def addIssue_def ofCategory_def Let_def split: option.splits)

lemma consistent_textStyleSettled:
  "consistent r c \<Longrightarrow> consistent (textStyleSettled cfg p outcome r) c"
  by (simp add: textStyleSettled_def consistent_addIssue split: styleLookup.splits option.splits)

lemma nodesChecked_addIssue:
  "nodesChecked (stats (addIssue r cat msg nid)) = nodesChecked (stats r)"
  by (simp add: addIssue_def Let_def)

text \<open>Each check appends its issues, in order, and changes nothing else.\<close>

lemma checkFills_resultsOf:
  "checkFills cfg p fs (resultsOf n js) = resultsOf n (js @ paintIssues NonStandardColor cfg p fs)"
proof (induction fs arbitrary: js)
  case Nil
  then show ?case by simp
next
  case (Cons f fs)
  show ?case
  proof (cases f)
    case (SOLID vis col)
    then show ?thesis
      by (cases col) (simp add: Cons.IH addIssue_resultsOf onlyIf_def issue_def Let_def)
  next
    case (OtherPaint ty vis)
    then show ?thesis by (simp add: Cons.IH)
  qed
qed

lemma checkStrokes_resultsOf:
  "checkStrokes cfg p ss (resultsOf n js)
     = resultsOf n (js @ paintIssues NonStandardStrokeColor cfg p ss)"
proof (induction ss arbitrary: js)
  case Nil
  then show ?case by simp
next
  case (Cons f fs)
  show ?case
  proof (cases f)
    case (SOLID vis col)
    then show ?thesis
      by (cases col) (simp add: Cons.IH addIssue_resultsOf onlyIf_def issue_def Let_def)
  next
    case (OtherPaint ty vis)
    then show ?thesis by (simp add: Cons.IH)
  qed
qed

lemma checkColors_resultsOf:
  "checkColors cfg p (resultsOf n js) = resultsOf n (js @ colorIssues cfg p)"
  by (simp add: checkColors_def colorIssues_def checkFills_resultsOf checkStrokes_resultsOf
      split: option.splits)

lemma checkTypography_resultsOf:
  "checkTypography cfg p (resultsOf n js) = resultsOf n (js @ typographyIssues cfg p)"
  by (simp add: checkTypography_def typographyIssues_def addIssue_resultsOf onlyIf_def issue_def
      split: fontNameValue.splits)

lemma grid_step:
  "(if \<not> isOnGrid cfg v
    then addIssue (resultsOf n js) ''spacing'' (mk (node_name p) v) (node_id p)
    else resultsOf n js) = resultsOf n (js @ gridIssue cfg p mk v)"
  by (simp add: addIssue_resultsOf gridIssue_def onlyIf_def issue_def)

lemma checkSpacing_resultsOf:
  "checkSpacing cfg p (resultsOf n js) = resultsOf n (js @ spacingIssues cfg p)"
  unfolding checkSpacing_def spacingIssues_def Let_def grid_step
  by simp

lemma checkRequired_resultsOf:
  "checkRequired nd rs (resultsOf n js) = resultsOf n (js @ requiredIssues nd rs)"
  by (induction rs arbitrary: js) (simp_all add: addIssue_resultsOf onlyIf_def issue_def)

lemma checkComponents_resultsOf:
  "checkComponents cfg nd (resultsOf n js) = resultsOf n (js @ componentIssues cfg nd)"
  by (simp add: checkComponents_def componentIssues_def requiredFor_def Let_def
      checkRequired_resultsOf addIssue_resultsOf onlyIf_def issue_def split: option.splits)

lemma checkNaming_resultsOf:
  "checkNaming test cfg p (resultsOf n js) = resultsOf n (js @ namingIssues test cfg p)"
  by (simp add: checkNaming_def namingIssues_def Let_def addIssue_resultsOf onlyIf_def issue_def)

lemma checkAccessibility_resultsOf:
  "checkAccessibility cfg p (resultsOf n js) = resultsOf n (js @ accessibilityIssues cfg p)"
  by (simp add: checkAccessibility_def accessibilityIssues_def Let_def hasAdequateContrast_def
      addIssue_resultsOf onlyIf_def issue_def split: option.splits)

lemma runChecks_resultsOf:
  "runChecks test cfg nd (resultsOf n js) = resultsOf n (js @ nodeIssues test cfg nd)"
  by (simp add: runChecks_def nodeIssues_def checkColors_resultsOf checkTypography_resultsOf
      checkSpacing_resultsOf checkComponents_resultsOf checkNaming_resultsOf
      checkAccessibility_resultsOf)

text \<open>
  The traversal: a deep check visits every node of the subtree once, in pre-order; a
  check that is not deep visits the node alone.
\<close>

lemma processNode_deep:
  "processNode test cfg nd (resultsOf n js) True
     = resultsOf (n + nodeCount nd) (js @ treeIssues test cfg nd)"
  "processChildren test cfg cs (resultsOf n js) True
     = resultsOf (n + nodeCounts cs) (js @ forestIssues test cfg cs)"
  by (induction nd and cs arbitrary: n js and n js rule: nodeCount_nodeCounts.induct)
    (simp_all add: runChecks_resultsOf countNode_resultsOf add.assoc)

lemma processNode_shallow:
  "processNode test cfg nd (resultsOf n js) False = resultsOf (Suc n) (js @ nodeIssues test cfg nd)"
  by (cases nd) (simp_all add: runChecks_resultsOf countNode_resultsOf)

lemma runAllChecks_resultsOf:
  "runAllChecks test cfg nd deep =
     resultsOf (if deep then nodeCount nd else 1)
       (if deep then treeIssues test cfg nd else nodeIssues test cfg nd)"
  by (simp add: runAllChecks_def emptyResults_resultsOf processNode_deep processNode_shallow)

text \<open>
  Claim C7: the results that an evaluation returns satisfy
  \<open>passed = (issues.length = 0)\<close> and \<open>stats.issuesFound = issues.length\<close>, and
  \<open>stats.categoryCounts\<close> gives every category its number of issues, with an entry only
  for a category that has one; and every single append keeps this, whether \<open>addIssue\<close>
  is called by a check or by a callback of the style lookup after the return.
\<close>

theorem results_consistent:
  "consistent (runAllChecks test cfg nd isDeepCheck) c
   \<and> (consistent r c \<longrightarrow> consistent (addIssue r cat msg nid) c)
   \<and> (consistent r c \<longrightarrow> consistent (textStyleSettled cfg p outcome r) c)"
  by (simp add: runAllChecks_resultsOf consistent_resultsOf consistent_addIssue
      consistent_textStyleSettled)

theorem results_consistent_witness:
  "consistent emptyResults ''typography''
   \<and> consistent (addIssue emptyResults ''typography'' (NoTextStyle ''title'') ''1:2'')
        ''typography''
   \<and> consistent (textStyleSettled defaultConfig sampleText Rejected emptyResults) ''typography''
   \<and> consistent (runAllChecks (\<lambda>re s. True) defaultConfig (Leaf sampleText) True) ''typography''"
proof -
  have e: "consistent emptyResults ''typography''"
    by (simp add: consistent_def emptyResults_def ofCategory_def)
  from results_consistent [of "\<lambda>re s. True" defaultConfig "Leaf sampleText" True "''typography''"
      emptyResults "''typography''" "NoTextStyle ''title''" "''1:2''" sampleText Rejected] e
  show ?thesis by simp
qed

text \<open>
  Claim C8: \<open>stats.nodesChecked\<close> of the returned results is \<open>1\<close> for a check that is
  not deep and the number of nodes of the subtree for a deep check; recording an issue
  does not change the counter, so it counts each visited node once whatever the node's
  issues.
\<close>

theorem nodesChecked_counts_visited_nodes:
  "nodesChecked (stats (runAllChecks test cfg nd False)) = 1
   \<and> nodesChecked (stats (runAllChecks test cfg nd True)) = nodeCount nd
   \<and> nodesChecked (stats (addIssue r cat msg nid)) = nodesChecked (stats r)"
  by (simp add: runAllChecks_resultsOf resultsOf_def nodesChecked_addIssue)

section \<open>The example scenario\<close>

lemma ofCategory_Nil: "ofCategory c [] = []"
  by (simp add: ofCategory_def)

lemma ofCategory_append: "ofCategory c (xs @ ys) = ofCategory c xs @ ofCategory c ys"
  by (simp add: ofCategory_def)

lemma ofCategory_onlyIf:
  "ofCategory c (onlyIf b (issue cat msg p)) = (if b \<and> cat = c then [issue cat msg p] else [])"
  by (simp add: ofCategory_def onlyIf_def issue_def)

lemmas ofCategory_simps = ofCategory_Nil ofCategory_append ofCategory_onlyIf

text \<open>Only the typography check records issues of the category \<open>typography\<close>.\<close>

lemma typography_paintIssues: "ofCategory ''typography'' (paintIssues mk cfg p ps) = []"
  by (induction mk cfg p ps rule: paintIssues.induct) (simp_all add: ofCategory_simps)

lemma typography_colorIssues: "ofCategory ''typography'' (colorIssues cfg p) = []"
  by (simp add: colorIssues_def typography_paintIssues ofCategory_simps split: option.splits)

lemma typography_spacingIssues: "ofCategory ''typography'' (spacingIssues cfg p) = []"
  by (simp add: spacingIssues_def gridIssue_def ofCategory_simps)

lemma typography_requiredIssues: "ofCategory ''typography'' (requiredIssues nd rs) = []"
  by (induction rs) (simp_all add: ofCategory_simps)

lemma typography_componentIssues: "ofCategory ''typography'' (componentIssues cfg nd) = []"
  by (simp add: componentIssues_def typography_requiredIssues ofCategory_simps)

lemma typography_namingIssues: "ofCategory ''typography'' (namingIssues test cfg p) = []"
  by (simp add: namingIssues_def ofCategory_simps)

lemma typography_accessibilityIssues: "ofCategory ''typography'' (accessibilityIssues cfg p) = []"
  by (simp add: accessibilityIssues_def ofCategory_simps)

lemma typography_nodeIssues:
  "ofCategory ''typography'' (nodeIssues test cfg nd)
     = ofCategory ''typography'' (typographyIssues cfg (propsOf nd))"
  by (simp add: nodeIssues_def typography_colorIssues typography_spacingIssues
      typography_componentIssues typography_namingIssues typography_accessibilityIssues
      ofCategory_simps)

lemma categoryCounts_resultsOf:
  "categoryCounts (stats (resultsOf n js)) c =
     (if ofCategory c js = [] then None else Some (length (ofCategory c js)))"
  by (simp add: resultsOf_def)

lemma typography_example:
  "ofCategory ''typography''
     (treeIssues test defaultConfig (Parent (screenFrame fp) [Leaf (arialText tp style)]))
   = [\<lparr> category = ''typography'', message = NonStandardFont ''Arial'' (node_name tp),
        nodeId = node_id tp \<rparr>,
      \<lparr> category = ''typography'', message = NoTextStyle (node_name tp), nodeId = node_id tp \<rparr>]"
  by (simp add: ofCategory_simps typography_nodeIssues typographyIssues_def screenFrame_def
      arialText_def defaultConfig_def, simp add: issue_def)

text \<open>
  Claim C9: under the default configuration, a deep check of a frame named
  \<open>Screen - home\<close> whose one child is a text with the font family \<open>Arial\<close> and no text
  style returns at least two issues, the issues of the category \<open>typography\<close> being one
  for the font and one for the missing style, with \<open>categoryCounts.typography = 2\<close> and
  \<open>passed = false\<close>. This holds whatever the other properties of the two nodes are and
  whatever the patterns match.
\<close>

theorem arial_text_in_screen_frame:
  "ofCategory ''typography''
     (issues (runAllChecks test defaultConfig
                (Parent (screenFrame fp) [Leaf (arialText tp style)]) True))
   = [\<lparr> category = ''typography'', message = NonStandardFont ''Arial'' (node_name tp),
        nodeId = node_id tp \<rparr>,
      \<lparr> category = ''typography'', message = NoTextStyle (node_name tp), nodeId = node_id tp \<rparr>]
   \<and> 2 \<le> length (issues (runAllChecks test defaultConfig
                (Parent (screenFrame fp) [Leaf (arialText tp style)]) True))
   \<and> categoryCounts (stats (runAllChecks test defaultConfig
                (Parent (screenFrame fp) [Leaf (arialText tp style)]) True)) ''typography''
       = Some 2
   \<and> \<not> passed (runAllChecks test defaultConfig
                (Parent (screenFrame fp) [Leaf (arialText tp style)]) True)"
proof -
  let ?nd = "Parent (screenFrame fp) [Leaf (arialText tp style)]"
  let ?js = "treeIssues test defaultConfig ?nd"
  have r: "runAllChecks test defaultConfig ?nd True = resultsOf (nodeCount ?nd) ?js"
    by (simp add: runAllChecks_resultsOf)
  have t: "ofCategory ''typography'' ?js
    = [\<lparr> category = ''typography'', message = NonStandardFont ''Arial'' (node_name tp),
         nodeId = node_id tp \<rparr>,
       \<lparr> category = ''typography'', message = NoTextStyle (node_name tp), nodeId = node_id tp \<rparr>]"
    by (rule typography_example)
  have "length (ofCategory ''typography'' ?js) \<le> length ?js"
    unfolding ofCategory_def by (rule length_filter_le)
  with t have len: "2 \<le> length ?js" by simp
  then have ne: "?js \<noteq> []" by auto
  have i: "issues (resultsOf (nodeCount ?nd) ?js) = ?js"
    and p: "passed (resultsOf (nodeCount ?nd) ?js) = (?js = [])"
    by (simp_all add: resultsOf_def)
  show ?thesis
    unfolding r i p categoryCounts_resultsOf using t len ne by simp
qed

section \<open>Frame types that the evaluation does not know\<close>

lemma getFrameType_cases:
  "getFrameType nm = None \<or> getFrameType nm = Some ''screen'' \<or> getFrameType nm = Some ''card''"
  by (simp add: getFrameType_def Let_def)

lemma map_of_filter_key:
  "P k \<Longrightarrow> map_of (filter (\<lambda>(k', v). P k') kvs) k = map_of kvs k"
  by (induction kvs) auto

lemma requiredFor_recognisedOnly: "requiredFor (recognisedOnly cfg) p = requiredFor cfg p"
proof -
  have s: "map_of (filter (\<lambda>(k, v). k = ''screen'' \<or> k = ''card'') kvs) ''screen''
      = map_of kvs ''screen''"
    and c: "map_of (filter (\<lambda>(k, v). k = ''screen'' \<or> k = ''card'') kvs) ''card''
      = map_of kvs ''card''"
    for kvs :: "(string \<times> string list) list"
    by (rule map_of_filter_key [where P = "\<lambda>k. k = ''screen'' \<or> k = ''card''"], simp)+
  show ?thesis
    using getFrameType_cases [of "node_name p"]
    by (auto simp add: requiredFor_def recognisedOnly_def s c)
qed

lemma nodeIssues_recognisedOnly: "nodeIssues test (recognisedOnly cfg) nd = nodeIssues test cfg nd"
proof -
  have "componentIssues (recognisedOnly cfg) nd = componentIssues cfg nd"
    by (simp add: componentIssues_def requiredFor_recognisedOnly) (simp add: recognisedOnly_def)
  moreover have "colorIssues (recognisedOnly cfg) p = colorIssues cfg p" for p
  proof -
    have "paintIssues mk (recognisedOnly cfg) p ps = paintIssues mk cfg p ps" for mk ps
      by (induction mk cfg p ps rule: paintIssues.induct)
        (simp_all add: isColorAllowed_def recognisedOnly_def)
    then show ?thesis by (simp add: colorIssues_def split: option.splits)
  qed
  moreover have "typographyIssues (recognisedOnly cfg) p = typographyIssues cfg p" for p
    by (simp add: typographyIssues_def recognisedOnly_def split: fontNameValue.splits)
  moreover have "spacingIssues (recognisedOnly cfg) p = spacingIssues cfg p" for p
    by (simp add: spacingIssues_def gridIssue_def isOnGrid_def recognisedOnly_def)
  moreover have "namingIssues test (recognisedOnly cfg) p = namingIssues test cfg p" for p
    by (simp add: namingIssues_def recognisedOnly_def)
  moreover have "accessibilityIssues (recognisedOnly cfg) p = accessibilityIssues cfg p" for p
    by (simp add: accessibilityIssues_def recognisedOnly_def)
  ultimately show ?thesis by (simp add: nodeIssues_def)
qed

lemma treeIssues_recognisedOnly:
  "treeIssues test (recognisedOnly cfg) nd = treeIssues test cfg nd"
  "forestIssues test (recognisedOnly cfg) cs = forestIssues test cfg cs"
  by (induction nd and cs rule: nodeCount_nodeCounts.induct)
    (simp_all add: nodeIssues_recognisedOnly)

text \<open>
  Claim C10: an entry of \<open>components.requiredComponents\<close> whose key is neither \<open>screen\<close>
  nor \<open>card\<close> produces no issue. The frame type of a name is \<open>screen\<close>, \<open>card\<close> or none,
  whatever keys the configuration has, and an evaluation returns the same results with
  all other entries removed from the configuration.
\<close>

theorem other_frame_types_are_ignored:
  "runAllChecks test (recognisedOnly cfg) nd isDeepCheck = runAllChecks test cfg nd isDeepCheck
   \<and> (getFrameType nm = None \<or> getFrameType nm = Some ''screen''
       \<or> getFrameType nm = Some ''card'')"
  by (simp add: runAllChecks_resultsOf treeIssues_recognisedOnly nodeIssues_recognisedOnly
      getFrameType_cases)


end
